theory Spec2Isabelle
  imports Complex_Main
begin

section \<open>JavaScript values\<close>

text \<open>
  The quantity fields of server.js hold a number, \<open>null\<close> or \<open>undefined\<close> (the key is
  missing from the JSON body); arithmetic on them can produce \<open>NaN\<close>. A finite IEEE
  double is idealised as a real number: rounding and overflow to an infinity are not
  modelled. JSON strings, booleans, arrays and objects in a quantity field are outside
  the model.
\<close>

datatype jsval = Undefined | Null | Num real | NaN

text \<open>ToNumber of the language: \<open>null\<close> is 0, \<open>undefined\<close> is NaN (here \<open>None\<close>).\<close>

fun toNumber :: "jsval \<Rightarrow> real option" where
  "toNumber Undefined = None"
| "toNumber Null = Some 0"
| "toNumber (Num r) = Some r"
| "toNumber NaN = None"

text \<open>\<open>a + b\<close> and \<open>a * b\<close> on values that are not strings.\<close>

definition js_add :: "jsval \<Rightarrow> jsval \<Rightarrow> jsval" where
  "js_add a b =
     (case toNumber a of None \<Rightarrow> NaN
      | Some x \<Rightarrow> (case toNumber b of None \<Rightarrow> NaN | Some y \<Rightarrow> Num (x + y)))"

definition js_mul :: "jsval \<Rightarrow> jsval \<Rightarrow> jsval" where
  "js_mul a b =
     (case toNumber a of None \<Rightarrow> NaN
      | Some x \<Rightarrow> (case toNumber b of None \<Rightarrow> NaN | Some y \<Rightarrow> Num (x * y)))"

text \<open>
  \<open>a / d\<close> for a numeric divisor. Every division of server.js has a positive divisor
  (\<open>totalWeight\<close> behind the test \<open>totalWeight > 0\<close>, and the literal 2); the quotient by
  zero, an infinity in the language, is not representable here and is given as NaN.
\<close>

definition js_div :: "jsval \<Rightarrow> real \<Rightarrow> jsval" where
  "js_div a d =
     (case toNumber a of None \<Rightarrow> NaN
      | Some x \<Rightarrow> if d = 0 then NaN else Num (x / d))"

text \<open>\<open>v >= lo\<close> and \<open>v <= hi\<close> against a numeric literal: false when \<open>v\<close> converts to NaN.\<close>

definition js_ge :: "jsval \<Rightarrow> real \<Rightarrow> bool" where
  "js_ge v lo = (case toNumber v of None \<Rightarrow> False | Some x \<Rightarrow> lo \<le> x)"

definition js_le :: "jsval \<Rightarrow> real \<Rightarrow> bool" where
  "js_le v hi = (case toNumber v of None \<Rightarrow> False | Some x \<Rightarrow> x \<le> hi)"

text \<open>\<open>v === null || v === undefined\<close>\<close>

fun nullish :: "jsval \<Rightarrow> bool" where
  "nullish Undefined = True"
| "nullish Null = True"
| "nullish (Num r) = False"
| "nullish NaN = False"

text \<open>Truthiness, as \<open>!v\<close> tests it: \<open>undefined\<close>, \<open>null\<close>, 0 and NaN are falsy.\<close>

fun truthy :: "jsval \<Rightarrow> bool" where
  "truthy Undefined = False"
| "truthy Null = False"
| "truthy (Num r) = (r \<noteq> 0)"
| "truthy NaN = False"

text \<open>\<open>a ?? b\<close>\<close>

definition coalesce :: "jsval \<Rightarrow> jsval \<Rightarrow> jsval" where
  "coalesce a b = (if nullish a then b else a)"

section \<open>The value set and the validator\<close>

text \<open>
  \<open>sensorData\<close>: the six quantity fields left in the request body once \<open>device_id\<close>,
  \<open>client_id\<close>, \<open>pm2_5\<close> and \<open>client_timestamp\<close> are taken out.
\<close>

record valueSet =
  temperature :: jsval
  humidity :: jsval
  pm25 :: jsval
  pm10 :: jsval
  co2 :: jsval
  tvoc :: jsval

definition isValid :: "jsval \<Rightarrow> real \<Rightarrow> real \<Rightarrow> bool" where
  "isValid v lo hi = (v = Null \<or> v = Undefined \<or> (js_ge v lo \<and> js_le v hi))"

definition validateSensorData :: "'a valueSet_scheme \<Rightarrow> bool" where
  "validateSensorData d =
     (isValid (temperature d) (-50) 50 \<and>
      isValid (humidity d) 0 100 \<and>
      isValid (pm25 d) 0 500 \<and>
      isValid (pm10 d) 0 500 \<and>
      isValid (co2 d) 0 5000 \<and>
      isValid (tvoc d) 0 1000)"

section \<open>The reliability counters\<close>

text \<open>
  \<open>clientReadingsCounter\<close> and \<open>deviceReadingsCounter\<close> are plain objects (\<open>{}\<close>) used as
  dictionaries. A map from the property key to the stored value holds their own
  properties. A key with no own property that names a property of \<open>Object.prototype\<close> reads
  as the inherited function (for \<open>__proto__\<close>, the prototype object): a value that is
  truthy and converts to NaN. An identity that is missing from the request is
  \<open>undefined\<close> and indexes the property \<open>''undefined''\<close>.
\<close>

definition propKey :: "string option \<Rightarrow> string" where
  "propKey k = (case k of None \<Rightarrow> ''undefined'' | Some s \<Rightarrow> s)"

text \<open>The property names of \<open>Object.prototype\<close> in the runtime (Node.js).\<close>

definition inheritedNames :: "string list" where
  "inheritedNames =
     [''constructor'', ''__defineGetter__'', ''__defineSetter__'', ''hasOwnProperty'',
      ''__lookupGetter__'', ''__lookupSetter__'', ''isPrototypeOf'',
      ''propertyIsEnumerable'', ''toString'', ''valueOf'', ''__proto__'',
      ''toLocaleString'']"

text \<open>
  \<open>obj[k]\<close>: an own property, an inherited one, or \<open>undefined\<close>. \<open>__proto__\<close> is an
  accessor of the prototype: it never becomes an own property by assignment and always
  reads as the prototype object.
\<close>

datatype 'a property = Missing | Own 'a | Inherited

definition getProperty :: "(string \<rightharpoonup> 'a) \<Rightarrow> string \<Rightarrow> 'a property" where
  "getProperty obj k =
     (if k = ''__proto__'' then Inherited
      else case obj k of
             Some v \<Rightarrow> Own v
           | None \<Rightarrow> if k \<in> set inheritedNames then Inherited else Missing)"

text \<open>
  \<open>obj[k] = v\<close> for a number \<open>v\<close>: the setter of \<open>__proto__\<close> ignores a value that is not an
  object; every other key gets an own property.
\<close>

definition setProperty :: "(string \<rightharpoonup> 'a) \<Rightarrow> string \<Rightarrow> 'a \<Rightarrow> (string \<rightharpoonup> 'a)" where
  "setProperty obj k v = (if k = ''__proto__'' then obj else obj(k \<mapsto> v))"

text \<open>
  The own values of \<open>clientReadingsCounter\<close>: a count, or the NaN that \<open>++\<close> stores when it
  finds an inherited function.
\<close>

datatype counterValue = Count nat | NotANumber

text \<open>The pair \<open>{ p, n }\<close> of a device.\<close>

record pn =
  pn_p :: nat
  pn_n :: nat

record state =
  clientReadingsCounter :: "string \<rightharpoonup> counterValue"
  deviceReadingsCounter :: "string \<rightharpoonup> pn"

text \<open>\<open>!clientReadingsCounter[clientId]\<close>: true of \<open>undefined\<close>, 0 and NaN.\<close>

fun falsyCounter :: "counterValue property \<Rightarrow> bool" where
  "falsyCounter Missing = True"
| "falsyCounter (Own (Count c)) = (c = 0)"
| "falsyCounter (Own NotANumber) = True"
| "falsyCounter Inherited = False"

text \<open>\<open>v + 1\<close> as \<open>clientReadingsCounter[clientId]++\<close> stores it: NaN unless \<open>v\<close> is a count.\<close>

fun incremented :: "counterValue property \<Rightarrow> counterValue" where
  "incremented (Own (Count c)) = Count (c + 1)"
| "incremented Missing = NotANumber"
| "incremented (Own NotANumber) = NotANumber"
| "incremented Inherited = NotANumber"

definition updateGCounter ::
  "string option \<Rightarrow> (string \<rightharpoonup> counterValue) \<Rightarrow> (string \<rightharpoonup> counterValue)" where
  "updateGCounter clientId cnt =
     (let k = propKey clientId;
          cnt1 = (if falsyCounter (getProperty cnt k) then setProperty cnt k (Count 0) else cnt)
      in setProperty cnt1 k (incremented (getProperty cnt1 k)))"

text \<open>
  updatePNCounter. \<open>!deviceReadingsCounter[deviceId]\<close> is false of an inherited function
  or object, so no pair is created for such a key: \<open>.p++\<close> and \<open>.n++\<close> then write NaN on
  the inherited value itself, which the routes read only through \<open>?.p || 0\<close> and
  \<open>?.n || 0\<close>, and the own properties of the counter stay as they are. (For \<open>__proto__\<close>
  the NaN lands on the prototype and every object inherits it as \<open>p\<close> or \<open>n\<close>; NaN being
  falsy, the keys \<open>p\<close> and \<open>n\<close> of both counters still read like missing ones.)
\<close>

definition updatePNCounter :: "string \<Rightarrow> bool \<Rightarrow> (string \<rightharpoonup> pn) \<Rightarrow> (string \<rightharpoonup> pn)" where
  "updatePNCounter deviceId increment cnt =
     (case getProperty cnt deviceId of
        Inherited \<Rightarrow> cnt
      | Missing \<Rightarrow>
          cnt(deviceId \<mapsto>
            (if increment then \<lparr>pn_p = 1, pn_n = 0\<rparr> else \<lparr>pn_p = 0, pn_n = 1\<rparr>))
      | Own c \<Rightarrow>
          cnt(deviceId \<mapsto>
            (if increment then c\<lparr>pn_p := pn_p c + 1\<rparr> else c\<lparr>pn_n := pn_n c + 1\<rparr>)))"

text \<open>
  \<open>clientReadingsCounter[clientId] || 1\<close>, the weight of calculateWeightedAverage: a
  number, or the inherited function or object.
\<close>

datatype weight = Weight nat | WeightObject

fun orOne :: "counterValue property \<Rightarrow> weight" where
  "orOne Missing = Weight 1"
| "orOne (Own (Count c)) = (if c = 0 then Weight 1 else Weight c)"
| "orOne (Own NotANumber) = Weight 1"
| "orOne Inherited = WeightObject"

definition weightOf :: "(string \<rightharpoonup> counterValue) \<Rightarrow> string option \<Rightarrow> weight" where
  "weightOf cnt clientId = orOne (getProperty cnt (propKey clientId))"

text \<open>
  \<open>(deviceReadingsCounter[deviceId]?.p || 0) - (deviceReadingsCounter[deviceId]?.n || 0)\<close>.
  On an inherited function or object \<open>p\<close> and \<open>n\<close> are \<open>undefined\<close> or NaN, and \<open>|| 0\<close>
  makes both 0.
\<close>

definition totalReadings :: "(string \<rightharpoonup> pn) \<Rightarrow> string \<Rightarrow> int" where
  "totalReadings cnt deviceId =
     (case getProperty cnt deviceId of
        Missing \<Rightarrow> 0
      | Own c \<Rightarrow> int (pn_p c) - int (pn_n c)
      | Inherited \<Rightarrow> 0)"

section \<open>The weighted average\<close>

text \<open>
  The weight as a factor of \<open>value * weight\<close>, and \<open>totalWeight += weight\<close>. Adding an
  inherited function or object to \<open>totalWeight\<close> concatenates strings: the sum, and every
  later sum, is a string that does not read as a number (\<open>None\<close>), of which
  \<open>totalWeight > 0\<close> is false.
\<close>

fun weightNumber :: "weight \<Rightarrow> jsval" where
  "weightNumber (Weight w) = Num (real w)"
| "weightNumber WeightObject = NaN"

fun addWeight :: "nat option \<Rightarrow> weight \<Rightarrow> nat option" where
  "addWeight (Some t) (Weight w) = Some (t + w)"
| "addWeight (Some t) WeightObject = None"
| "addWeight None w = None"

text \<open>The \<open>forEach\<close> of calculateWeightedAverage over \<open>{ value, clientId }\<close> pairs.\<close>

fun weightedLoop ::
  "(string \<rightharpoonup> counterValue) \<Rightarrow> (jsval \<times> string option) list \<Rightarrow> nat option \<times> jsval \<Rightarrow>
   nat option \<times> jsval" where
  "weightedLoop cnt [] acc = acc"
| "weightedLoop cnt ((v, clientId) # rs) (totalWeight, weightedSum) =
     weightedLoop cnt rs
       (addWeight totalWeight (weightOf cnt clientId),
        js_add weightedSum (js_mul v (weightNumber (weightOf cnt clientId))))"

definition calculateWeightedAverage ::
  "(string \<rightharpoonup> counterValue) \<Rightarrow> (jsval \<times> string option) list \<Rightarrow> jsval" where
  "calculateWeightedAverage cnt readings =
     (case weightedLoop cnt readings (Some 0, Num 0) of
        (Some totalWeight, weightedSum) \<Rightarrow>
          if totalWeight > 0 then js_div weightedSum (real totalWeight) else Null
      | (None, weightedSum) \<Rightarrow> Null)"

text \<open>
  resolveConflicts, the helper of server.js that no route calls: the plain average with
  the pass-through of a missing side.
\<close>

definition resolveValue :: "jsval \<Rightarrow> jsval \<Rightarrow> jsval" where
  "resolveValue existing incoming =
     (if existing = Null \<or> existing = Undefined then incoming
      else if incoming = Null \<or> incoming = Undefined then existing
      else js_div (js_add existing incoming) 2)"

section \<open>The store and the readings\<close>

text \<open>
  A row of \<open>sensor_readings\<close> as the client library returns it, with the properties the
  routes read or write. \<open>deviceIdRef\<close> is optional because the routes delete it from the
  response object, \<open>device_id\<close> (here \<open>out_device_id\<close>) because they add it. The handler
  reads \<open>latestReading.clientId\<close>; schema.prisma declares no such column, so a row of the
  real store has \<open>undefined\<close> (\<open>None\<close>) there. The two timestamps take part in no
  computation of the routes beyond the store's own query and are left out.
\<close>

record sensorReading = valueSet +
  rid :: nat
  deviceIdRef :: "nat option"
  clientId :: "string option"
  out_device_id :: "string option"

text \<open>The \<open>data\<close> object given to \<open>prisma.sensorReading.create\<close>.\<close>

record insertData = valueSet +
  data_deviceIdRef :: nat
  data_others :: "jsval list"

text \<open>
  The persistence calls, each answering \<open>Inr\<close> its result or \<open>Inl\<close> the message of the
  error it throws: \<open>prisma.device.upsert\<close> (answering \<open>device.id\<close>), the \<open>findMany\<close> over
  the trailing five minutes, newest first, \<open>prisma.sensorReading.create\<close>, and the
  \<open>findMany\<close> of the retrieval route with its \<open>take\<close>.
\<close>

record store =
  upsertDevice :: "string \<Rightarrow> string + nat"
  findRecentReadings :: "string \<Rightarrow> string + sensorReading list"
  insertReading :: "insertData \<Rightarrow> string + sensorReading"
  findReadings :: "string \<Rightarrow> int \<Rightarrow> string + sensorReading list"

text \<open>
  The rest object \<open>sensorData\<close> of the request body: the six quantities, and the values of
  every other key the body carries (numbers, \<open>null\<close> or \<open>undefined\<close>, as for the
  quantities).
\<close>

record restObject = valueSet +
  otherValues :: "jsval list"

text \<open>
  The request body of \<open>POST /readings\<close>: the two identities (\<open>None\<close> when the key is
  missing), the alias, and the rest object. \<open>client_timestamp\<close>, which only the stored
  row's \<open>clientTimestamp\<close> depends on, is left out.
\<close>

record body =
  device_id :: "string option"
  client_id :: "string option"
  pm2_5 :: jsval
  sensorData :: restObject

datatype response =
    Status400 string
  | Status201 sensorReading
  | Status500 string string
  | Status200_simulation string valueSet
  | Status404 string
  | Status200 "sensorReading list"

section \<open>Ingestion\<close>

text \<open>\<open>Object.values(sensorData).every(val => val === null || val === undefined)\<close>\<close>

definition noSensorValues :: "restObject \<Rightarrow> bool" where
  "noSensorValues d =
     list_all nullish
       ([temperature d, humidity d, pm25 d, pm10 d, co2 d, tvoc d] @ otherValues d)"

text \<open>\<open>!device_id\<close>: the identity is missing or the empty string.\<close>

definition missingDevice :: "string option \<Rightarrow> bool" where
  "missingDevice d = (case d of None \<Rightarrow> True | Some s \<Rightarrow> s = [])"

text \<open>Lines 169 to 201: the value set to store, merged with the latest recent reading.\<close>

definition merged ::
  "(string \<rightharpoonup> counterValue) \<Rightarrow> sensorReading \<Rightarrow> string option \<Rightarrow> jsval \<Rightarrow> jsval \<Rightarrow> jsval" where
  "merged cnt latestReading cid latest incoming =
     calculateWeightedAverage cnt [(latest, clientId latestReading), (incoming, cid)]"

definition resolvedData ::
  "(string \<rightharpoonup> counterValue) \<Rightarrow> sensorReading list \<Rightarrow> string option \<Rightarrow>
   'a valueSet_scheme \<Rightarrow> 'a valueSet_scheme" where
  "resolvedData cnt recentReadings cid d =
     (case recentReadings of
        [] \<Rightarrow> d
      | latestReading # _ \<Rightarrow>
          d\<lparr>temperature := merged cnt latestReading cid (temperature latestReading) (temperature d),
            humidity := merged cnt latestReading cid (humidity latestReading) (humidity d),
            pm25 := merged cnt latestReading cid (pm25 latestReading) (pm25 d),
            pm10 := merged cnt latestReading cid (pm10 latestReading) (pm10 d),
            co2 := merged cnt latestReading cid (co2 latestReading) (co2 d),
            tvoc := merged cnt latestReading cid (tvoc latestReading) (tvoc d)\<rparr>)"

text \<open>
  \<open>{ deviceIdRef: device.id, ...resolvedData, pm25: pm2_5 }\<close>: the alias is written
  over the \<open>pm25\<close> of the resolved data; the other keys of the body come along.
\<close>

definition createData :: "nat \<Rightarrow> restObject \<Rightarrow> jsval \<Rightarrow> insertData" where
  "createData deviceRef resolved alias =
     \<lparr>temperature = temperature resolved, humidity = humidity resolved,
      pm25 = alias, pm10 = pm10 resolved, co2 = co2 resolved, tvoc = tvoc resolved,
      data_deviceIdRef = deviceRef, data_others = otherValues resolved\<rparr>"

definition responseReading :: "string \<Rightarrow> sensorReading \<Rightarrow> sensorReading" where
  "responseReading deviceId r = r\<lparr>out_device_id := Some deviceId, deviceIdRef := None\<rparr>"

text \<open>
  The \<open>try\<close> block of \<open>POST /readings\<close>: \<open>Inl\<close> is the error that reaches the \<open>catch\<close>,
  \<open>Inr\<close> the response object. The weights are read from the client counter as it is when
  the block runs.
\<close>

definition tryBlock :: "(string \<rightharpoonup> counterValue) \<Rightarrow> store \<Rightarrow> body \<Rightarrow> string + sensorReading" where
  "tryBlock cnt db b =
     (let dev = propKey (device_id b)
      in case upsertDevice db dev of
           Inl e \<Rightarrow> Inl e
         | Inr deviceRef \<Rightarrow>
            (case findRecentReadings db dev of
               Inl e \<Rightarrow> Inl e
             | Inr recentReadings \<Rightarrow>
                (case insertReading db
                        (createData deviceRef
                           (resolvedData cnt recentReadings (client_id b) (sensorData b))
                           (pm2_5 b)) of
                   Inl e \<Rightarrow> Inl e
                 | Inr newReading \<Rightarrow> Inr (responseReading dev newReading))))"

text \<open>
  The route \<open>POST /readings\<close>: the response and the counters it leaves. Both counters are
  updated before the \<open>try\<close> block.
\<close>

definition postReadings :: "state \<Rightarrow> store \<Rightarrow> body \<Rightarrow> response \<times> state" where
  "postReadings st db b =
     (if missingDevice (device_id b) then (Status400 ''Missing device_id field.'', st)
      else if noSensorValues (sensorData b) \<and> \<not> truthy (pm2_5 b)
        then (Status400 ''Received reading data contains no sensor values.'', st)
      else if \<not> validateSensorData (sensorData b) then (Status400 ''Invalid sensor data.'', st)
      else
        let st1 = st\<lparr>clientReadingsCounter :=
                      updateGCounter (client_id b) (clientReadingsCounter st)\<rparr>;
            st2 = st1\<lparr>deviceReadingsCounter :=
                       updatePNCounter (propKey (device_id b)) True (deviceReadingsCounter st1)\<rparr>
        in (case tryBlock (clientReadingsCounter st2) db b of
              Inl e \<Rightarrow> (Status500 ''Failed to store sensor reading.'' e, st2)
            | Inr r \<Rightarrow> (Status201 r, st2)))"

section \<open>Retrieval\<close>

text \<open>\<open>parseInt(req.query.limit, 10)\<close> is an integer or NaN (\<open>None\<close>).\<close>

definition clampLimit :: "int option \<Rightarrow> int" where
  "clampLimit l = (case l of None \<Rightarrow> 10 | Some v \<Rightarrow> if v \<le> 0 \<or> v > 1000 then 10 else v)"

text \<open>\<open>cur ?? (prev + next) / 2\<close>\<close>

definition fill :: "jsval \<Rightarrow> jsval \<Rightarrow> jsval \<Rightarrow> jsval" where
  "fill prev cur next = coalesce cur (js_div (js_add prev next) 2)"

definition interpolateOne :: "sensorReading \<Rightarrow> sensorReading \<Rightarrow> sensorReading \<Rightarrow> sensorReading" where
  "interpolateOne prev reading next =
     reading\<lparr>temperature := fill (temperature prev) (temperature reading) (temperature next),
             humidity := fill (humidity prev) (humidity reading) (humidity next),
             pm25 := fill (pm25 prev) (pm25 reading) (pm25 next),
             pm10 := fill (pm10 prev) (pm10 reading) (pm10 next),
             co2 := fill (co2 prev) (co2 reading) (co2 next),
             tvoc := fill (tvoc prev) (tvoc reading) (tvoc next)\<rparr>"

text \<open>
  The \<open>readings.map((reading, index, arr) => ...)\<close> of the retrieval route. An index that
  is neither 0 nor \<open>arr.length - 1\<close> has both neighbours inside the array.
\<close>

definition interpolatedReadings :: "sensorReading list \<Rightarrow> sensorReading list" where
  "interpolatedReadings arr =
     map (\<lambda>index.
            if index = 0 \<or> int index = int (length arr) - 1 then arr ! index
            else interpolateOne (arr ! (index - 1)) (arr ! index) (arr ! (index + 1)))
         [0..<length arr]"

text \<open>
  The route \<open>GET /readings/device/:deviceId\<close>. \<open>dummy\<close> is the object generateDummyData
  draws with \<open>Math.random\<close>.
\<close>

definition getReadings :: "state \<Rightarrow> store \<Rightarrow> valueSet \<Rightarrow> string \<Rightarrow> int option \<Rightarrow> response" where
  "getReadings st db dummy deviceId limitParam =
     (case findReadings db deviceId (clampLimit limitParam) of
        Inl e \<Rightarrow> Status500 ''Failed to retrieve sensor readings.'' e
      | Inr readings \<Rightarrow>
          if totalReadings (deviceReadingsCounter st) deviceId < 5
            then Status200_simulation ''Insufficient data. Switching to simulation mode.'' dummy
          else if readings = [] then Status404 ''No data available for this device.''
          else Status200 (map (responseReading deviceId) (interpolatedReadings readings)))"

section \<open>Vocabulary of the properties\<close>

text \<open>The six quantity fields by name, to speak of each of them.\<close>

datatype quantity = Temperature | Humidity | PM25 | PM10 | CO2 | TVOC

fun field :: "quantity \<Rightarrow> 'a valueSet_scheme \<Rightarrow> jsval" where
  "field Temperature d = temperature d"
| "field Humidity d = humidity d"
| "field PM25 d = pm25 d"
| "field PM10 d = pm10 d"
| "field CO2 d = co2 d"
| "field TVOC d = tvoc d"

text \<open>
  The specification's reading of the validator: a field that is null or absent is valid,
  a number is valid inside the closed range.
\<close>

definition spec_in_range :: "real \<Rightarrow> real \<Rightarrow> jsval \<Rightarrow> bool" where
  "spec_in_range lo hi v =
     (case v of Undefined \<Rightarrow> True | Null \<Rightarrow> True | Num r \<Rightarrow> lo \<le> r \<and> r \<le> hi | NaN \<Rightarrow> False)"

text \<open>Example data: a value set and a stored row that carry a temperature only.\<close>

definition onlyTemperature :: "jsval \<Rightarrow> valueSet" where
  "onlyTemperature t =
     \<lparr>temperature = t, humidity = Undefined, pm25 = Undefined, pm10 = Undefined,
      co2 = Undefined, tvoc = Undefined\<rparr>"

definition rowWithTemperature :: "nat \<Rightarrow> jsval \<Rightarrow> sensorReading" where
  "rowWithTemperature i t =
     \<lparr>temperature = t, humidity = Null, pm25 = Null, pm10 = Null, co2 = Null, tvoc = Null,
      rid = i, deviceIdRef = Some 1, clientId = None, out_device_id = None\<rparr>"

text \<open>
  An example store whose \<open>create\<close> answers the row it was given and whose recent readings
  are the given list, and one whose \<open>upsert\<close> and retrieval query throw.
\<close>

definition storedRow :: "insertData \<Rightarrow> sensorReading" where
  "storedRow d =
     \<lparr>temperature = temperature d, humidity = humidity d, pm25 = pm25 d, pm10 = pm10 d,
      co2 = co2 d, tvoc = tvoc d,
      rid = 1, deviceIdRef = Some (data_deviceIdRef d), clientId = None, out_device_id = None\<rparr>"

definition echoStore :: "sensorReading list \<Rightarrow> store" where
  "echoStore recent =
     \<lparr>upsertDevice = (\<lambda>k. Inr 1), findRecentReadings = (\<lambda>k. Inr recent),
      insertReading = (\<lambda>d. Inr (storedRow d)), findReadings = (\<lambda>k l. Inr recent)\<rparr>"

definition brokenStore :: store where
  "brokenStore =
     \<lparr>upsertDevice = (\<lambda>k. Inl ''connection refused''), findRecentReadings = (\<lambda>k. Inr []),
      insertReading = (\<lambda>d. Inr (storedRow d)),
      findReadings = (\<lambda>k l. Inl ''connection refused'')\<rparr>"

text \<open>The counters of a process that has just started, and an example request.\<close>

definition initialState :: state where
  "initialState = \<lparr>clientReadingsCounter = Map.empty, deviceReadingsCounter = Map.empty\<rparr>"

definition exampleBody :: "jsval \<Rightarrow> valueSet \<Rightarrow> body" where
  "exampleBody alias d =
     \<lparr>device_id = Some ''dev-1'', client_id = Some ''c1'', pm2_5 = alias,
      sensorData =
        \<lparr>temperature = temperature d, humidity = humidity d, pm25 = pm25 d, pm10 = pm10 d,
         co2 = co2 d, tvoc = tvoc d, otherValues = []\<rparr>\<rparr>"


text \<open>The closed range of each quantity, as the specification lists them.\<close>

fun rangeOf :: "quantity \<Rightarrow> real \<times> real" where
  "rangeOf Temperature = (-50, 50)"
| "rangeOf Humidity = (0, 100)"
| "rangeOf PM25 = (0, 500)"
| "rangeOf PM10 = (0, 500)"
| "rangeOf CO2 = (0, 5000)"
| "rangeOf TVOC = (0, 1000)"

text \<open>\<open>recordDevice\<close> over a sequence of calls, each a device key and the increment flag.\<close>

definition recordDevices :: "(string \<times> bool) list \<Rightarrow> (string \<rightharpoonup> pn) \<Rightarrow> (string \<rightharpoonup> pn)" where
  "recordDevices ops cnt = fold (\<lambda>(d, increment). updatePNCounter d increment) ops cnt"


section \<open>Properties of the validator\<close>

lemma isValid_spec: "isValid v lo hi = spec_in_range lo hi v"
  by (cases v) (simp_all add: isValid_def spec_in_range_def js_ge_def js_le_def)

lemma all_quantity:
  "(\<forall>q. P q) = (P Temperature \<and> P Humidity \<and> P PM25 \<and> P PM10 \<and> P CO2 \<and> P TVOC)"
proof
  assume r: "P Temperature \<and> P Humidity \<and> P PM25 \<and> P PM10 \<and> P CO2 \<and> P TVOC"
  show "\<forall>q. P q"
  proof
    fix q show "P q" using r by (cases q) simp_all
  qed
qed simp

lemma validate_all_quantities:
  "validateSensorData d = (\<forall>q. spec_in_range (fst (rangeOf q)) (snd (rangeOf q)) (field q d))"
  by (simp add: all_quantity validateSensorData_def isValid_spec)

lemma invalid_not_empty: "\<not> validateSensorData d \<Longrightarrow> \<not> noSensorValues d"
  by (auto simp: validateSensorData_def isValid_def noSensorValues_def elim: nullish.elims)

text \<open>
  Claim C7. validateSensorData accepts a value set exactly when every quantity is null,
  absent, or a number inside its closed range (temperature -50 to 50, humidity 0 to 100,
  pm2.5 and pm10 0 to 500, co2 0 to 5000, tvoc 0 to 1000). One number strictly outside its
  range rejects the set whatever the other fields hold, and the route then answers
  ``Invalid sensor data.'' with the counters as they were and nothing given to the store.
\<close>

theorem validator_accepts_iff_in_range:
  "(validateSensorData d \<longleftrightarrow>
      (\<forall>q. spec_in_range (fst (rangeOf q)) (snd (rangeOf q)) (field q d)))
   \<and> (field q d = Num r \<and> (r < fst (rangeOf q) \<or> snd (rangeOf q) < r) \<longrightarrow>
        \<not> validateSensorData d)
   \<and> (\<not> missingDevice (device_id b) \<and> \<not> validateSensorData (sensorData b) \<longrightarrow>
        postReadings st db b = (Status400 ''Invalid sensor data.'', st))"
proof (intro conjI impI)
  show "validateSensorData d \<longleftrightarrow>
      (\<forall>q. spec_in_range (fst (rangeOf q)) (snd (rangeOf q)) (field q d))"
    by (rule validate_all_quantities)
next
  assume a: "field q d = Num r \<and> (r < fst (rangeOf q) \<or> snd (rangeOf q) < r)"
  then have "\<not> spec_in_range (fst (rangeOf q)) (snd (rangeOf q)) (field q d)"
    by (auto simp: spec_in_range_def)
  then show "\<not> validateSensorData d"
    unfolding validate_all_quantities by blast
next
  assume a: "\<not> missingDevice (device_id b) \<and> \<not> validateSensorData (sensorData b)"
  then have "\<not> noSensorValues (sensorData b)"
    by (simp add: invalid_not_empty)
  with a show "postReadings st db b = (Status400 ''Invalid sensor data.'', st)"
    by (simp add: postReadings_def)
qed

theorem validator_accepts_iff_in_range_witness:
  "validateSensorData (onlyTemperature (Num 50))
   \<and> \<not> validateSensorData (onlyTemperature (Num 51))
   \<and> postReadings initialState (echoStore []) (exampleBody Undefined (onlyTemperature (Num 51)))
       = (Status400 ''Invalid sensor data.'', initialState)"
  using validator_accepts_iff_in_range [where d = "onlyTemperature (Num 50)"]
    validator_accepts_iff_in_range [where d = "onlyTemperature (Num 51)" and q = Temperature
      and r = 51 and b = "exampleBody Undefined (onlyTemperature (Num 51))"
      and st = initialState and db = "echoStore []"]
  by (simp add: all_quantity onlyTemperature_def exampleBody_def missingDevice_def
      spec_in_range_def validateSensorData_def isValid_def js_ge_def js_le_def)

section \<open>Properties of the reliability counters\<close>

lemma proto_inherited: "''__proto__'' \<in> set inheritedNames"
  by (simp add: inheritedNames_def)

lemma getProperty_plain:
  "k \<notin> set inheritedNames \<Longrightarrow>
   getProperty obj k = (case obj k of Some v \<Rightarrow> Own v | None \<Rightarrow> Missing)"
  using proto_inherited by (auto simp: getProperty_def split: option.splits)


lemma updateGCounter_same:
  assumes "propKey c \<notin> set inheritedNames"
  shows "updateGCounter c cnt (propKey c) =
     Some (Count (Suc (case cnt (propKey c) of Some (Count v) \<Rightarrow> v | _ \<Rightarrow> 0)))"
proof -
  have np: "propKey c \<noteq> ''__proto__''"
    using assms proto_inherited by auto
  show ?thesis
    using assms np
    by (auto simp: updateGCounter_def Let_def setProperty_def getProperty_plain
        split: option.splits counterValue.splits)
qed






lemma updatePNCounter_other: "d \<noteq> dev \<Longrightarrow> updatePNCounter d inc cnt dev = cnt dev"
  by (simp add: updatePNCounter_def split: property.splits)

lemma updatePNCounter_same:
  "dev \<notin> set inheritedNames \<Longrightarrow>
   updatePNCounter dev inc cnt dev =
     Some \<lparr>pn_p = (case cnt dev of None \<Rightarrow> 0 | Some c \<Rightarrow> pn_p c) + (if inc then 1 else 0),
           pn_n = (case cnt dev of None \<Rightarrow> 0 | Some c \<Rightarrow> pn_n c) + (if inc then 0 else 1)\<rparr>"
  by (simp add: updatePNCounter_def getProperty_plain split: option.splits)

lemma count_fst_zero:
  "count_list (map fst ops) dev = 0 \<Longrightarrow> count_list ops (dev, b) = 0"
  by (induction ops) (auto split: if_splits)

lemma recordDevices_entry:
  assumes "dev \<notin> set inheritedNames"
  shows "recordDevices ops cnt dev =
     (if count_list (map fst ops) dev = 0 then cnt dev
      else Some \<lparr>pn_p = (case cnt dev of None \<Rightarrow> 0 | Some c \<Rightarrow> pn_p c)
                          + count_list ops (dev, True),
                 pn_n = (case cnt dev of None \<Rightarrow> 0 | Some c \<Rightarrow> pn_n c)
                          + count_list ops (dev, False)\<rparr>)"
proof (induction ops arbitrary: cnt)
  case Nil
  show ?case by (simp add: recordDevices_def)
next
  case (Cons a ops)
  obtain d inc where a: "a = (d, inc)" by (cases a)
  have step: "recordDevices (a # ops) cnt = recordDevices ops (updatePNCounter d inc cnt)"
    by (simp add: recordDevices_def a)
  show ?case
  proof (cases "d = dev")
    case True
    then show ?thesis
      unfolding step Cons.IH using assms
      by (cases inc) (auto simp: a updatePNCounter_same count_fst_zero split: option.splits)
  next
    case False
    then show ?thesis
      unfolding step Cons.IH by (simp add: a updatePNCounter_other)
  qed
qed

lemma totalReadings_recordDevices:
  "dev \<notin> set inheritedNames \<Longrightarrow>
   totalReadings (recordDevices ops Map.empty) dev =
     int (count_list ops (dev, True)) - int (count_list ops (dev, False))"
  by (simp add: totalReadings_def recordDevices_entry count_fst_zero getProperty_plain)

lemma totalReadings_update:
  "dev \<notin> set inheritedNames \<Longrightarrow>
   totalReadings (updatePNCounter dev True cnt) dev = totalReadings cnt dev + 1"
  by (simp add: totalReadings_def updatePNCounter_same getProperty_plain split: option.splits)

text \<open>
  Claim C8, as the specification states it, fails in two places. On a process that has
  recorded nothing the total is 0, below 5, and a retrieval whose query throws is answered
  as a failure, not with simulated data. And after five increments for the device
  \<open>constructor\<close> the total the route computes is 0, not 5.
\<close>

theorem simulation_gate_behind_query:
  "getReadings initialState brokenStore (onlyTemperature (Num 25)) ''d'' None =
     Status500 ''Failed to retrieve sensor readings.'' ''connection refused''
   \<and> totalReadings (deviceReadingsCounter initialState) ''d'' = 0
   \<and> totalReadings
        (recordDevices
           [(''constructor'', True), (''constructor'', True), (''constructor'', True),
            (''constructor'', True), (''constructor'', True)] Map.empty)
        ''constructor'' = 0"
  by (simp add: getReadings_def brokenStore_def initialState_def totalReadings_def
      recordDevices_def updatePNCounter_def getProperty_def inheritedNames_def)

text \<open>
  Claim C8, amended. After any sequence of updatePNCounter calls on counters that started
  empty, the total the retrieval route computes for a device whose key is no name the
  counter object inherits is the number of its increments minus the number of its
  decrements (0 for a device never recorded, 2 after three increments and one decrement).
  Whenever the store's query answers, whatever the batch, the route returns the simulated
  data exactly when the total is below 5; a total of 5 or more never does.
\<close>

theorem totalReadings_gates_simulation:
  "(dev \<notin> set inheritedNames \<longrightarrow>
      totalReadings (recordDevices ops Map.empty) dev =
        int (count_list ops (dev, True)) - int (count_list ops (dev, False)))
   \<and> (findReadings db dev (clampLimit l) = Inr readings \<longrightarrow>
        (getReadings st db dummy dev l =
           Status200_simulation ''Insufficient data. Switching to simulation mode.'' dummy
         \<longleftrightarrow> totalReadings (deviceReadingsCounter st) dev < 5))"
  by (simp add: totalReadings_recordDevices getReadings_def)

theorem totalReadings_gates_simulation_witness:
  "totalReadings
     (recordDevices [(''d'', True), (''d'', True), (''d'', False), (''d'', True)] Map.empty)
     ''d'' = 2
   \<and> totalReadings
     (recordDevices [(''d'', True), (''d'', True), (''d'', False), (''d'', True)] Map.empty)
     ''e'' = 0
   \<and> getReadings initialState (echoStore [rowWithTemperature 1 (Num 20)])
        (onlyTemperature (Num 25)) ''d'' None =
      Status200_simulation ''Insufficient data. Switching to simulation mode.''
        (onlyTemperature (Num 25))
   \<and> getReadings
        \<lparr>clientReadingsCounter = Map.empty,
         deviceReadingsCounter = [''d'' \<mapsto> \<lparr>pn_p = 5, pn_n = 0\<rparr>]\<rparr>
        (echoStore [rowWithTemperature 1 (Num 20)]) (onlyTemperature (Num 25)) ''d'' None \<noteq>
      Status200_simulation ''Insufficient data. Switching to simulation mode.''
        (onlyTemperature (Num 25))"
  using totalReadings_gates_simulation
      [where ops = "[(''d'', True), (''d'', True), (''d'', False), (''d'', True)]"
        and dev = "''d''" and db = "echoStore [rowWithTemperature 1 (Num 20)]"
        and l = None and readings = "[rowWithTemperature 1 (Num 20)]"
        and st = initialState and dummy = "onlyTemperature (Num 25)"]
    totalReadings_gates_simulation
      [where ops = "[(''d'', True), (''d'', True), (''d'', False), (''d'', True)]"
        and dev = "''e''" and db = "echoStore [rowWithTemperature 1 (Num 20)]"
        and l = None and readings = "[rowWithTemperature 1 (Num 20)]"
        and st = initialState and dummy = "onlyTemperature (Num 25)"]
    totalReadings_gates_simulation
      [where ops = "[]"
        and dev = "''d''" and db = "echoStore [rowWithTemperature 1 (Num 20)]"
        and l = None and readings = "[rowWithTemperature 1 (Num 20)]"
        and st = "\<lparr>clientReadingsCounter = Map.empty,
                    deviceReadingsCounter = [''d'' \<mapsto> \<lparr>pn_p = 5, pn_n = 0\<rparr>]\<rparr>"
        and dummy = "onlyTemperature (Num 25)"]
  by (simp add: echoStore_def initialState_def totalReadings_def getProperty_def
      inheritedNames_def)

section \<open>Properties of the interpolation\<close>

lemma length_interpolatedReadings: "length (interpolatedReadings arr) = length arr"
  by (simp add: interpolatedReadings_def)

lemma nth_interpolatedReadings:
  "i < length arr \<Longrightarrow>
   interpolatedReadings arr ! i =
     (if i = 0 \<or> Suc i = length arr then arr ! i
      else interpolateOne (arr ! (i - 1)) (arr ! i) (arr ! (i + 1)))"
  by (auto simp: interpolatedReadings_def)

lemma field_interpolateOne:
  "field q (interpolateOne prev r next) = fill (field q prev) (field q r) (field q next)"
  by (cases q) (simp_all add: interpolateOne_def)

text \<open>
  Claim C10. For a batch of two or more readings the interpolation returns the first and
  the last reading as they are, whatever their fields hold, null included; a batch of one
  reading is returned as it is.
\<close>

theorem interpolation_keeps_first_and_last:
  "(2 \<le> length arr \<longrightarrow>
      hd (interpolatedReadings arr) = hd arr \<and> last (interpolatedReadings arr) = last arr)
   \<and> interpolatedReadings [r] = [r]"
proof (intro conjI impI)
  assume len: "2 \<le> length arr"
  then have ne: "arr \<noteq> []" "interpolatedReadings arr \<noteq> []"
    by (auto simp: interpolatedReadings_def)
  show "hd (interpolatedReadings arr) = hd arr"
    using len ne by (simp add: hd_conv_nth nth_interpolatedReadings)
  show "last (interpolatedReadings arr) = last arr"
    using len ne
    by (simp add: last_conv_nth length_interpolatedReadings nth_interpolatedReadings)
next
  show "interpolatedReadings [r] = [r]"
    by (simp add: interpolatedReadings_def)
qed

theorem interpolation_keeps_first_and_last_witness:
  "hd (interpolatedReadings
         [rowWithTemperature 1 Null, rowWithTemperature 2 (Num 10), rowWithTemperature 3 Null])
     = rowWithTemperature 1 Null
   \<and> last (interpolatedReadings
         [rowWithTemperature 1 Null, rowWithTemperature 2 (Num 10), rowWithTemperature 3 Null])
     = rowWithTemperature 3 Null
   \<and> interpolatedReadings [rowWithTemperature 1 Null] = [rowWithTemperature 1 Null]"
  using interpolation_keeps_first_and_last
      [where arr = "[rowWithTemperature 1 Null, rowWithTemperature 2 (Num 10),
                     rowWithTemperature 3 Null]"
        and r = "rowWithTemperature 1 Null"]
  by simp

text \<open>
  Claim C3, as the specification states it, fails on the batch whose temperatures are
  null, null and 30: the middle temperature becomes 15, the mean of 0 and 30, and not
  null.
\<close>

theorem null_neighbour_not_propagated:
  "temperature (interpolatedReadings
      [rowWithTemperature 1 Null, rowWithTemperature 2 Null, rowWithTemperature 3 (Num 30)] ! 1)
     = Num 15
   \<and> temperature (interpolatedReadings
      [rowWithTemperature 1 Null, rowWithTemperature 2 Null, rowWithTemperature 3 (Num 30)] ! 1)
     \<noteq> Null"
  by (simp add: nth_interpolatedReadings interpolateOne_def fill_def coalesce_def js_add_def
      js_div_def rowWithTemperature_def)

text \<open>
  Claim C3, amended. When a field of a middle reading is null, a neighbour whose same field
  is null enters the mean as the number 0: with one null neighbour the field becomes half
  the other neighbour's value, with two null neighbours it becomes 0. The result is a
  number in each case, never null.
\<close>

theorem null_neighbour_counts_as_zero:
  assumes "0 < i" and "i + 1 < length arr" and "field q (arr ! i) = Null"
  shows "(field q (arr ! (i - 1)) = Null \<and> field q (arr ! (i + 1)) = Num x \<longrightarrow>
            field q (interpolatedReadings arr ! i) = Num (x / 2))
       \<and> (field q (arr ! (i - 1)) = Num x \<and> field q (arr ! (i + 1)) = Null \<longrightarrow>
            field q (interpolatedReadings arr ! i) = Num (x / 2))
       \<and> (field q (arr ! (i - 1)) = Null \<and> field q (arr ! (i + 1)) = Null \<longrightarrow>
            field q (interpolatedReadings arr ! i) = Num 0)"
proof -
  have "interpolatedReadings arr ! i =
          interpolateOne (arr ! (i - 1)) (arr ! i) (arr ! (i + 1))"
    using assms by (simp add: nth_interpolatedReadings)
  then have "field q (interpolatedReadings arr ! i) =
          js_div (js_add (field q (arr ! (i - 1))) (field q (arr ! (i + 1)))) 2"
    using assms by (simp add: field_interpolateOne fill_def coalesce_def)
  then show ?thesis
    by (simp add: js_add_def js_div_def)
qed

theorem null_neighbour_counts_as_zero_witness:
  "field Temperature (interpolatedReadings
      [rowWithTemperature 1 (Num 30), rowWithTemperature 2 Null, rowWithTemperature 3 Null] ! 1)
     = Num 15
   \<and> field Humidity (interpolatedReadings
      [rowWithTemperature 1 (Num 30), rowWithTemperature 2 Null, rowWithTemperature 3 Null] ! 1)
     = Num 0"
  using null_neighbour_counts_as_zero
      [where i = 1 and q = Temperature and x = 30
        and arr = "[rowWithTemperature 1 (Num 30), rowWithTemperature 2 Null,
                    rowWithTemperature 3 Null]"]
    null_neighbour_counts_as_zero
      [where i = 1 and q = Humidity
        and arr = "[rowWithTemperature 1 (Num 30), rowWithTemperature 2 Null,
                    rowWithTemperature 3 Null]"]
  by (simp add: rowWithTemperature_def)

section \<open>Properties of the merge\<close>

lemma weightOf_Weight_pos: "weightOf cnt c = Weight w \<Longrightarrow> 0 < w"
  by (cases "getProperty cnt (propKey c)" rule: orOne.cases)
    (auto simp: weightOf_def split: if_splits)



text \<open>
  With numbers for both weights, a side that is null enters the sum as 0 and still adds
  its weight to the divisor, and a side that is absent turns the sum into NaN. A weight
  that is an inherited function or object makes the result null.
\<close>

lemma calculateWeightedAverage_null_latest:
  assumes "weightOf cnt cl = Weight wl" and "weightOf cnt ci = Weight wi"
  shows "calculateWeightedAverage cnt [(Null, cl), (Num i, ci)] =
     Num (i * real wi / (real wl + real wi))"
  using assms weightOf_Weight_pos [OF assms(1)]
  by (simp add: calculateWeightedAverage_def js_add_def js_mul_def js_div_def)

lemma calculateWeightedAverage_null_incoming:
  assumes "weightOf cnt cl = Weight wl" and "weightOf cnt ci = Weight wi"
  shows "calculateWeightedAverage cnt [(Num l, cl), (Null, ci)] =
     Num (l * real wl / (real wl + real wi))"
  using assms weightOf_Weight_pos [OF assms(1)]
  by (simp add: calculateWeightedAverage_def js_add_def js_mul_def js_div_def)

lemma calculateWeightedAverage_absent_incoming:
  assumes "weightOf cnt cl = Weight wl" and "weightOf cnt ci = Weight wi"
  shows "calculateWeightedAverage cnt [(v, cl), (Undefined, ci)] = NaN"
  using assms weightOf_Weight_pos [OF assms(1)]
  by (simp add: calculateWeightedAverage_def js_add_def js_mul_def js_div_def
      split: option.splits)

lemma calculateWeightedAverage_object_weight:
  "weightOf cnt cl = WeightObject \<or> weightOf cnt ci = WeightObject \<Longrightarrow>
   calculateWeightedAverage cnt [(a, cl), (b, ci)] = Null"
  by (cases "weightOf cnt cl"; cases "weightOf cnt ci")
    (auto simp: calculateWeightedAverage_def)





section \<open>Properties of the ingestion route\<close>

lemma postReadings_accepted:
  assumes "\<not> missingDevice (device_id b)"
      and "\<not> (noSensorValues (sensorData b) \<and> \<not> truthy (pm2_5 b))"
      and "validateSensorData (sensorData b)"
  shows "postReadings st db b =
     (let st2 = st\<lparr>clientReadingsCounter :=
                      updateGCounter (client_id b) (clientReadingsCounter st),
                    deviceReadingsCounter :=
                      updatePNCounter (propKey (device_id b)) True (deviceReadingsCounter st)\<rparr>
      in case tryBlock (clientReadingsCounter st2) db b of
           Inl e \<Rightarrow> (Status500 ''Failed to store sensor reading.'' e, st2)
         | Inr r \<Rightarrow> (Status201 r, st2))"
  using assms by (simp add: postReadings_def Let_def split: sum.splits)

text \<open>
  With a device identity, no value under any key of the rest object and a null or absent
  alias, the submission is refused as empty with the counters untouched and the store not
  called; a truthy alias is never refused as empty.
\<close>

lemma empty_payload_rejected:
  "\<not> missingDevice (device_id b) \<Longrightarrow> noSensorValues (sensorData b) \<Longrightarrow>
   \<not> truthy (pm2_5 b) \<Longrightarrow>
   postReadings st db b =
     (Status400 ''Received reading data contains no sensor values.'', st)"
  by (simp add: postReadings_def)

lemma truthy_alias_not_empty_payload:
  "truthy (pm2_5 b) \<Longrightarrow>
   fst (postReadings st db b) \<noteq>
     Status400 ''Received reading data contains no sensor values.''"
  by (simp add: postReadings_def Let_def split: sum.splits)

text \<open>
  With no recent reading the five quantities other than pm2.5 reach the store as they
  were submitted, and \<open>pm25\<close> is the alias.
\<close>

lemma createData_without_recent:
  "q \<noteq> PM25 \<Longrightarrow> field q (createData deviceRef (resolvedData cnt [] cid d) alias) = field q d"
  by (cases q) (simp_all add: createData_def resolvedData_def)

lemma createData_pm25:
  "pm25 (createData deviceRef resolved alias) = alias"
  by (simp add: createData_def)

text \<open>
  Claim C1 does not hold of the route. A submission with temperature 22 meets a latest
  recent reading whose temperature is null, both weights 1: the temperature given to the
  store is 11, the null side counted as 0 with its weight, where the pass-through rule
  asks for 22. The quantities the submission leaves out, against the null of the latest
  reading, become NaN. resolveValue, the helper no route calls, does pass 22 through.
\<close>

theorem lone_value_is_not_passed_through:
  "postReadings initialState (echoStore [rowWithTemperature 7 Null])
      (exampleBody Undefined (onlyTemperature (Num 22))) =
     (Status201
        \<lparr>temperature = Num 11, humidity = NaN, pm25 = Undefined, pm10 = NaN,
         co2 = NaN, tvoc = NaN,
         rid = 1, deviceIdRef = None, clientId = None, out_device_id = Some ''dev-1''\<rparr>,
      \<lparr>clientReadingsCounter = [''c1'' \<mapsto> Count 1],
       deviceReadingsCounter = [''dev-1'' \<mapsto> \<lparr>pn_p = 1, pn_n = 0\<rparr>]\<rparr>)
   \<and> resolveValue Null (Num 22) = Num 22"
  by (simp add: postReadings_def missingDevice_def noSensorValues_def onlyTemperature_def
      exampleBody_def validateSensorData_def isValid_def js_ge_def js_le_def tryBlock_def
      echoStore_def initialState_def updateGCounter_def updatePNCounter_def propKey_def
      resolvedData_def createData_def responseReading_def storedRow_def
      rowWithTemperature_def merged_def calculateWeightedAverage_def weightOf_def
      js_add_def js_mul_def js_div_def resolveValue_def getProperty_def setProperty_def
      inheritedNames_def)

text \<open>
  Claim C2 does not hold of the route. A submission with temperature 21 and \<open>pm25\<close> 12, no
  alias and no recent reading is accepted, and the row given to the store has the
  temperature 21 but no \<open>pm25\<close>: the absent alias has been written over the 12.
\<close>

theorem submitted_pm25_is_overwritten:
  "postReadings initialState (echoStore [])
      (exampleBody Undefined ((onlyTemperature (Num 21))\<lparr>pm25 := Num 12\<rparr>)) =
     (Status201
        \<lparr>temperature = Num 21, humidity = Undefined, pm25 = Undefined, pm10 = Undefined,
         co2 = Undefined, tvoc = Undefined,
         rid = 1, deviceIdRef = None, clientId = None, out_device_id = Some ''dev-1''\<rparr>,
      \<lparr>clientReadingsCounter = [''c1'' \<mapsto> Count 1],
       deviceReadingsCounter = [''dev-1'' \<mapsto> \<lparr>pn_p = 1, pn_n = 0\<rparr>]\<rparr>)"
  by (simp add: postReadings_def missingDevice_def noSensorValues_def onlyTemperature_def
      exampleBody_def validateSensorData_def isValid_def js_ge_def js_le_def tryBlock_def
      echoStore_def initialState_def updateGCounter_def updatePNCounter_def propKey_def
      resolvedData_def createData_def responseReading_def storedRow_def getProperty_def
      setProperty_def inheritedNames_def)

text \<open>
  Claim C5 does not hold of the route. A submission whose six quantities are absent and
  whose alias \<open>pm2_5\<close> is the number 0 is refused as carrying no sensor values, whatever
  the counters and the store: \<open>!pm2_5\<close> holds of 0, so this supplied alias does not bypass
  the refusal.
\<close>

theorem zero_alias_is_refused_as_empty:
  "postReadings st db (exampleBody (Num 0) (onlyTemperature Undefined)) =
     (Status400 ''Received reading data contains no sensor values.'', st)"
  by (simp add: postReadings_def exampleBody_def onlyTemperature_def missingDevice_def
      noSensorValues_def)

text \<open>
  Claim C6, as the specification states it, fails when the \<open>upsert\<close> throws on the first
  request of a process: the caller gets the generic failure, and the client counter and
  the device counter, both without an entry before, hold 1 and \<open>{ p: 1, n: 0 }\<close> after.
\<close>

theorem store_failure_changes_counters:
  "postReadings initialState brokenStore (exampleBody Undefined (onlyTemperature (Num 21))) =
     (Status500 ''Failed to store sensor reading.'' ''connection refused'',
      \<lparr>clientReadingsCounter = [''c1'' \<mapsto> Count 1],
       deviceReadingsCounter = [''dev-1'' \<mapsto> \<lparr>pn_p = 1, pn_n = 0\<rparr>]\<rparr>)
   \<and> clientReadingsCounter initialState ''c1'' = None
   \<and> deviceReadingsCounter initialState ''dev-1'' = None"
  by (simp add: postReadings_def missingDevice_def noSensorValues_def onlyTemperature_def
      exampleBody_def validateSensorData_def isValid_def js_ge_def js_le_def tryBlock_def
      brokenStore_def initialState_def updateGCounter_def updatePNCounter_def propKey_def
      getProperty_def setProperty_def inheritedNames_def)

text \<open>
  Claim C6, amended. For every submission that passes the three checks and whose
  \<open>upsert\<close>, recent-readings query or \<open>create\<close> throws, the caller gets the generic failure
  with the message of the error, and the counters keep the increments made before the
  store was called: for a client identity that indexes no name the counter object
  inherits, the client's count is one above its count before the request (1 where it had
  none), and for such a device identity the device's total is one above its total
  before.
\<close>

theorem store_failure_keeps_increments:
  assumes "\<not> missingDevice (device_id b)"
      and "\<not> (noSensorValues (sensorData b) \<and> \<not> truthy (pm2_5 b))"
      and "validateSensorData (sensorData b)"
      and "upsertDevice db (propKey (device_id b)) = Inl e
           \<or> (\<exists>deviceRef. upsertDevice db (propKey (device_id b)) = Inr deviceRef
                \<and> findRecentReadings db (propKey (device_id b)) = Inl e)
           \<or> (\<exists>deviceRef recent. upsertDevice db (propKey (device_id b)) = Inr deviceRef
                \<and> findRecentReadings db (propKey (device_id b)) = Inr recent
                \<and> insertReading db
                     (createData deviceRef
                        (resolvedData (updateGCounter (client_id b) (clientReadingsCounter st))
                           recent (client_id b) (sensorData b))
                        (pm2_5 b)) = Inl e)"
  shows "fst (postReadings st db b) = Status500 ''Failed to store sensor reading.'' e
       \<and> (propKey (client_id b) \<notin> set inheritedNames \<longrightarrow>
            clientReadingsCounter (snd (postReadings st db b)) (propKey (client_id b)) =
              Some (Count (Suc (case clientReadingsCounter st (propKey (client_id b)) of
                                  Some (Count v) \<Rightarrow> v | _ \<Rightarrow> 0))))
       \<and> (propKey (device_id b) \<notin> set inheritedNames \<longrightarrow>
            totalReadings (deviceReadingsCounter (snd (postReadings st db b)))
                (propKey (device_id b)) =
              totalReadings (deviceReadingsCounter st) (propKey (device_id b)) + 1)"
proof -
  have t: "tryBlock (updateGCounter (client_id b) (clientReadingsCounter st)) db b = Inl e"
    using assms(4) by (auto simp: tryBlock_def Let_def)
  show ?thesis
    using assms(1-3) t
    by (simp add: postReadings_accepted Let_def totalReadings_update updateGCounter_same)
qed

theorem store_failure_keeps_increments_witness:
  "fst (postReadings initialState brokenStore
          (exampleBody Undefined (onlyTemperature (Num 21)))) =
     Status500 ''Failed to store sensor reading.'' ''connection refused''
   \<and> clientReadingsCounter
        (snd (postReadings initialState brokenStore
                (exampleBody Undefined (onlyTemperature (Num 21))))) ''c1'' = Some (Count 1)
   \<and> totalReadings
        (deviceReadingsCounter
           (snd (postReadings initialState brokenStore
                   (exampleBody Undefined (onlyTemperature (Num 21)))))) ''dev-1'' = 1"
  using store_failure_keeps_increments
      [where b = "exampleBody Undefined (onlyTemperature (Num 21))" and db = brokenStore
        and st = initialState and e = "''connection refused''"]
  by (simp add: exampleBody_def onlyTemperature_def missingDevice_def noSensorValues_def
      validateSensorData_def isValid_def js_ge_def js_le_def brokenStore_def propKey_def
      initialState_def totalReadings_def getProperty_def inheritedNames_def)

end
